theory Spec2Isabelle
  imports Main "HOL-Library.AList" "HOL-Library.Word"
begin

unbundle bit_operations_syntax

section \<open>Python values, exceptions and builtins used by the code\<close>

text \<open>
  A token payload is a JSON object. The tokens of this system carry strings
  (\<open>sub\<close>, \<open>context\<close>, \<open>tenant\<close>, \<open>email\<close>) and integers (\<open>org_id\<close>, \<open>iat\<close>,
  \<open>exp\<close>); these are the two kinds of value the model has. A payload is an
  association list in insertion order, \<open>payload.get(k)\<close> is \<open>map_of payload k\<close>.
  A string is the UTF-8 encoding of the Python string: equality, emptiness,
  concatenation and \<open>in\<close> are the same on both.
\<close>

datatype jval = JStr string | JInt int

type_synonym claims = "(string \<times> jval) list"

text \<open>
  The exceptions that reach a caller. \<open>AttributeError ty a\<close> is Python's
  "'ty' object has no attribute 'a'"; \<open>DBAPIError\<close> is what the database driver
  raises for a bound parameter of the wrong type; \<open>HTTPException c d\<close> is FastAPI's
  exception with \<open>status_code = c\<close> and \<open>detail = d\<close>.
\<close>

datatype exn =
    ValueError string
  | AttributeError string string
  | DBAPIError string
  | HTTPException int string

text \<open>Truthiness: \<open>not v\<close> for a value read with \<open>dict.get\<close> (\<open>None\<close> when absent).\<close>

fun falsy :: "jval \<Rightarrow> bool" where
  "falsy (JStr s) = (s = [])"
| "falsy (JInt n) = (n = 0)"

fun py_not :: "jval option \<Rightarrow> bool" where
  "py_not None = True"
| "py_not (Some v) = falsy v"

text \<open>\<open>str(n)\<close> for an integer: decimal digits, a leading minus sign when negative.\<close>

definition digit_char :: "nat \<Rightarrow> char" where
  "digit_char d = char_of (48 + d)"

fun str_nat :: "nat \<Rightarrow> string" where
  "str_nat n = (if n < 10 then [digit_char n] else str_nat (n div 10) @ [digit_char (n mod 10)])"

declare str_nat.simps [simp del]

definition py_str :: "int \<Rightarrow> string" where
  "py_str i = (if i < 0 then CHR ''-'' # str_nat (nat (- i)) else str_nat (nat i))"

text \<open>
  \<open>int(s)\<close> for a string, base 10, as CPython 3.11 computes it. A string of the
  model is the UTF-8 encoding of the Python string, so a character outside ASCII
  is two to four bytes (U+00A0 is \<open>[CHR 0xC2, CHR 0xA0]\<close>).

  \<^item> Every character outside ASCII is first replaced: a Unicode whitespace
    character by a space, a Unicode decimal digit by the ASCII digit of its
    value, anything else by \<open>?\<close>, where the conversion stops. The whitespace
    characters and the blocks of ten decimal digits are those of Unicode 14.0,
    the database of CPython 3.11.
  \<^item> Surrounding whitespace is stripped: space and the characters 9 to 13. The
    characters 28 to 31 are not stripped.
  \<^item> One sign is allowed, then decimal digits, single underscores allowed
    between digits.
  \<^item> A literal of more than 4300 digits is refused (the interpreter's default
    limit), leading zeros counted, underscores not.

  \<open>None\<close> stands for the \<open>ValueError\<close> that \<open>int\<close> raises.
\<close>

text \<open>
  C's \<open>isspace\<close> and \<open>isdigit\<close>, which \<open>int\<close> applies to the text once the characters
  outside ASCII have been replaced (\<open>to_ascii\<close> below).
\<close>

definition is_space :: "char \<Rightarrow> bool" where
  "is_space c = (let n = (of_char c :: nat) in n = 32 \<or> (9 \<le> n \<and> n \<le> 13))"

definition is_digit :: "char \<Rightarrow> bool" where
  "is_digit c = (let n = (of_char c :: nat) in 48 \<le> n \<and> n \<le> 57)"

definition digit_val :: "char \<Rightarrow> nat" where
  "digit_val c = of_char c - 48"

text \<open>
  The Unicode database, for the code points from 128 on: the whitespace
  characters, and the value of a decimal digit, found from the first code point
  of its block of ten.
\<close>

definition unicode_space :: "nat \<Rightarrow> bool" where
  "unicode_space cp =
     (cp = 0x85 \<or> cp = 0xA0 \<or> cp = 0x1680 \<or> (0x2000 \<le> cp \<and> cp \<le> 0x200A) \<or>
      cp = 0x2028 \<or> cp = 0x2029 \<or> cp = 0x202F \<or> cp = 0x205F \<or> cp = 0x3000)"

definition decimal_blocks :: "nat list" where
  "decimal_blocks =
      [0x660, 0x6F0, 0x7C0, 0x966, 0x9E6, 0xA66, 0xAE6, 0xB66, 0xBE6, 0xC66, 0xCE6,
       0xD66, 0xDE6, 0xE50, 0xED0, 0xF20, 0x1040, 0x1090, 0x17E0, 0x1810, 0x1946,
       0x19D0, 0x1A80, 0x1A90, 0x1B50, 0x1BB0, 0x1C40, 0x1C50, 0xA620, 0xA8D0, 0xA900,
       0xA9D0, 0xA9F0, 0xAA50, 0xABF0, 0xFF10, 0x104A0, 0x10D30, 0x11066, 0x110F0,
       0x11136, 0x111D0, 0x112F0, 0x11450, 0x114D0, 0x11650, 0x116C0, 0x11730, 0x118E0,
       0x11950, 0x11C50, 0x11D50, 0x11DA0, 0x16A60, 0x16AC0, 0x16B50, 0x1D7CE, 0x1D7D8,
       0x1D7E2, 0x1D7EC, 0x1D7F6, 0x1E140, 0x1E2F0, 0x1E950, 0x1FBF0]"

definition unicode_decimal :: "nat \<Rightarrow> nat option" where
  "unicode_decimal cp =
     (case find (\<lambda>b. b \<le> cp \<and> cp < b + 10) decimal_blocks of
        None \<Rightarrow> None
      | Some b \<Rightarrow> Some (cp - b))"

text \<open>
  UTF-8: a lead byte announces one, two or three continuation bytes (\<open>0\<close> here for
  a byte that cannot lead), each carrying six bits.
\<close>

definition utf8_width :: "nat \<Rightarrow> nat" where
  "utf8_width b =
     (if 194 \<le> b \<and> b < 224 then 1 else if 224 \<le> b \<and> b < 240 then 2
      else if 240 \<le> b \<and> b < 245 then 3 else 0)"

definition utf8_code_point :: "nat \<Rightarrow> string \<Rightarrow> nat option" where
  "utf8_code_point b tail =
     (if utf8_width b = 0 \<or> length tail \<noteq> utf8_width b
         \<or> \<not> list_all (\<lambda>c. 128 \<le> (of_char c :: nat) \<and> (of_char c :: nat) < 192) tail
      then None
      else Some (foldl (\<lambda>acc c. acc * 64 + (of_char c - 128))
                   (b - (if b < 224 then 192 else if b < 240 then 224 else 240)) tail))"

fun to_ascii :: "string \<Rightarrow> string" where
  "to_ascii [] = []"
| "to_ascii (c # cs) =
     (if (of_char c :: nat) < 128 then c # to_ascii cs
      else
        (case utf8_code_point (of_char c) (take (utf8_width (of_char c)) cs) of
           None \<Rightarrow> ''?''
         | Some cp \<Rightarrow>
             if unicode_space cp then CHR '' '' # to_ascii (drop (utf8_width (of_char c)) cs)
             else (case unicode_decimal cp of
                     None \<Rightarrow> ''?''
                   | Some d \<Rightarrow> digit_char d # to_ascii (drop (utf8_width (of_char c)) cs))))"

definition strip :: "string \<Rightarrow> string" where
  "strip s = rev (dropWhile is_space (rev (dropWhile is_space s)))"

fun parse_digits :: "bool \<Rightarrow> nat \<Rightarrow> string \<Rightarrow> nat option" where
  "parse_digits after_digit acc [] = (if after_digit then Some acc else None)"
| "parse_digits after_digit acc (c # cs) =
     (if is_digit c then parse_digits True (10 * acc + digit_val c) cs
      else if c = CHR ''_'' \<and> after_digit then parse_digits False acc cs
      else None)"

definition max_str_digits :: nat where
  "max_str_digits = 4300"

text \<open>The literal without its sign, \<open>s\<close> being stripped already.\<close>

definition unsigned :: "string \<Rightarrow> string" where
  "unsigned s =
     (case s of
        [] \<Rightarrow> []
      | c # cs \<Rightarrow> if c = CHR ''-'' \<or> c = CHR ''+'' then cs else c # cs)"

definition int_of_string :: "string \<Rightarrow> int option" where
  "int_of_string s =
     (let t = strip (to_ascii s); body = unsigned t
      in if length (filter is_digit body) > max_str_digits then None
         else map_option (\<lambda>n. if take 1 t = ''-'' then - int n else int n)
                (parse_digits False 0 body))"

fun py_int :: "jval \<Rightarrow> int option" where
  "py_int (JStr s) = int_of_string s"
| "py_int (JInt n) = Some n"

text \<open>
  The shape of the strings that \<open>int\<close> reads, said without a parser: after the
  replacement of the characters outside ASCII and the stripping, an optional
  sign and then a non-empty text of digits and underscores that begins and ends
  with a digit and has no two underscores in a row, of at most 4300 digits.
\<close>

fun no_double_underscore :: "string \<Rightarrow> bool" where
  "no_double_underscore (x # y # zs) =
     (\<not> (x = CHR ''_'' \<and> y = CHR ''_'') \<and> no_double_underscore (y # zs))"
| "no_double_underscore _ = True"

definition digit_groups :: "string \<Rightarrow> bool" where
  "digit_groups body =
     (body \<noteq> [] \<and> list_all (\<lambda>c. is_digit c \<or> c = CHR ''_'') body \<and>
      is_digit (hd body) \<and> is_digit (last body) \<and> no_double_underscore body)"

definition int_literal :: "string \<Rightarrow> bool" where
  "int_literal s =
     (let body = unsigned (strip (to_ascii s))
      in digit_groups body \<and> length (filter is_digit body) \<le> max_str_digits)"

text \<open>
  The specification's words for the subject claim, "the decimal representation
  of an integer": digits, after a minus sign for a negative number.
\<close>

definition decimal_representation :: "string \<Rightarrow> bool" where
  "decimal_representation s =
     (case s of
        [] \<Rightarrow> False
      | c # cs \<Rightarrow> if c = CHR ''-'' then cs \<noteq> [] \<and> list_all is_digit cs
                  else list_all is_digit (c # cs))"

text \<open>\<open>needle in haystack\<close> on strings.\<close>

fun startswith :: "string \<Rightarrow> string \<Rightarrow> bool" where
  "startswith [] ys = True"
| "startswith (x # xs) [] = False"
| "startswith (x # xs) (y # ys) = (x = y \<and> startswith xs ys)"

fun py_in :: "string \<Rightarrow> string \<Rightarrow> bool" where
  "py_in xs [] = (xs = [])"
| "py_in xs (y # ys) = (startswith xs (y # ys) \<or> py_in xs ys)"

text \<open>
  \<open>str(e)\<close> of an exception: the message for the builtin exceptions, and
  \<open>"<status_code>: <detail>"\<close> for an \<open>HTTPException\<close>.
\<close>

fun str_exn :: "exn \<Rightarrow> string" where
  "str_exn (ValueError m) = m"
| "str_exn (AttributeError ty a) =
     [CHR 0x27] @ ty @ [CHR 0x27] @ '' object has no attribute '' @ [CHR 0x27] @ a @ [CHR 0x27]"
| "str_exn (DBAPIError m) = m"
| "str_exn (HTTPException c d) = py_str c @ '': '' @ d"

section \<open>models.py: the tables\<close>

record core_user =
  cu_id :: int
  cu_email :: string
  cu_hashed_password :: string
  cu_first_name :: "string option"
  cu_last_name :: "string option"
  cu_is_active :: bool
  cu_created_at :: int

record organization =
  o_id :: int
  o_name :: string
  o_slug :: string
  o_description :: "string option"
  o_is_active :: bool
  o_created_at :: int
  o_database_name :: string

record tenant_user =
  tu_id :: int
  tu_email :: string
  tu_hashed_password :: string
  tu_first_name :: "string option"
  tu_last_name :: "string option"
  tu_phone :: "string option"
  tu_is_active :: bool
  tu_created_at :: int
  tu_updated_at :: "int option"
  tu_avatar :: "string option"
  tu_bio :: "string option"
  tu_organization_id :: int

text \<open>
  The database session: the rows of each table, in the order the database returns
  them. \<open>organization_owners\<close> is the association table \<open>(user_id, organization_id)\<close>.
\<close>

record db =
  core_users :: "core_user list"
  organizations :: "organization list"
  tenant_users :: "tenant_user list"
  organization_owners :: "(int \<times> int) list"

section \<open>api/query.py\<close>

text \<open>\<open>result.scalars().first()\<close>: the first row that passes the filter, or \<open>None\<close>.\<close>

definition get_core_user_by_id :: "int \<Rightarrow> db \<Rightarrow> core_user option" where
  "get_core_user_by_id user_id db_session =
     find (\<lambda>u. cu_id u = user_id) (core_users db_session)"

definition get_core_user_by_email :: "string \<Rightarrow> db \<Rightarrow> core_user option" where
  "get_core_user_by_email email db_session =
     find (\<lambda>u. cu_email u = email) (core_users db_session)"

definition get_organization_by_slug :: "string \<Rightarrow> db \<Rightarrow> organization option" where
  "get_organization_by_slug slug db_session =
     find (\<lambda>org. o_slug org = slug \<and> o_is_active org = True) (organizations db_session)"

definition get_tenant_user_by_id :: "int \<Rightarrow> db \<Rightarrow> tenant_user option" where
  "get_tenant_user_by_id user_id db_session =
     find (\<lambda>u. tu_id u = user_id) (tenant_users db_session)"

definition get_tenant_user_by_email :: "string \<Rightarrow> db \<Rightarrow> tenant_user option" where
  "get_tenant_user_by_email email db_session =
     find (\<lambda>u. tu_email u = email) (tenant_users db_session)"

section \<open>Token codec\<close>

text \<open>
  Modelled from the spec: the token codec (\<open>create_access_token\<close>,
  \<open>create_refresh_token\<close> and \<open>decode_token\<close> of api/jwt.py, and the library
  call \<open>jwt.decode\<close> under it) is not among the sources. The spec's sections 4.1
  and 6 give it: a token is three segments, a header naming the algorithm, the
  claim set, and a signature over both under the process-wide secret key;
  \<open>issue\<close> adds \<open>iat\<close> and \<open>exp = iat + ttl\<close> to the claims and signs;
  \<open>verify\<close> fails with \<open>MalformedError\<close> if the structure cannot be parsed or
  the signature does not verify, with \<open>ExpiredError\<close> if \<open>now > exp\<close>, and
  otherwise returns the claim set. A bearer string is represented by what it
  parses to: \<open>Compact\<close> with its three segments decoded, or \<open>Garbled\<close> for any
  text that is not three well-formed segments. The signature algorithm is a
  parameter \<open>sign\<close>, from the key, the header and the claim set to the signature
  bytes.
\<close>

datatype token = Compact string claims "8 word list" | Garbled string

datatype token_error = ExpiredError | MalformedError

definition issue ::
  "(string \<Rightarrow> string \<Rightarrow> claims \<Rightarrow> 8 word list) \<Rightarrow> string \<Rightarrow> int \<Rightarrow> claims \<Rightarrow> int \<Rightarrow> token" where
  "issue sign secret_key now claims ttl =
     (let payload = AList.update ''exp'' (JInt (now + ttl)) (AList.update ''iat'' (JInt now) claims)
      in Compact ''HS256'' payload (sign secret_key ''HS256'' payload))"

definition verify ::
  "(string \<Rightarrow> string \<Rightarrow> claims \<Rightarrow> 8 word list) \<Rightarrow> string \<Rightarrow> int \<Rightarrow> token \<Rightarrow> token_error + claims" where
  "verify sign secret_key now tok =
     (case tok of
        Garbled text \<Rightarrow> Inl MalformedError
      | Compact header payload signature \<Rightarrow>
          if signature \<noteq> sign secret_key header payload then Inl MalformedError
          else (case map_of payload ''exp'' of
                  Some (JInt expires_at) \<Rightarrow> if now > expires_at then Inl ExpiredError else Inr payload
                | _ \<Rightarrow> Inr payload))"

text \<open>
  The two exception classes of the JWT library that security.py tells apart.
  \<open>InvalidTokenError\<close> stands for every failure of \<open>jwt.decode\<close> other than
  expiry.
\<close>

datatype jwt_error = ExpiredSignatureError | InvalidTokenError

text \<open>
  Modelled from the spec: \<open>jwt.decode(token, SECRET_KEY, algorithms=[ALGORITHM])\<close>
  as security.py calls it, that is \<open>verify\<close> raising the library's exceptions.
\<close>

definition pyjwt_decode ::
  "(string \<Rightarrow> string \<Rightarrow> claims \<Rightarrow> 8 word list) \<Rightarrow> string \<Rightarrow> int \<Rightarrow> token \<Rightarrow> jwt_error + claims" where
  "pyjwt_decode sign secret_key now tok =
     (case verify sign secret_key now tok of
        Inl ExpiredError \<Rightarrow> Inl ExpiredSignatureError
      | Inl MalformedError \<Rightarrow> Inl InvalidTokenError
      | Inr payload \<Rightarrow> Inr payload)"

section \<open>security.py\<close>

text \<open>
  A query parameter bound to the \<open>slug\<close> column has to be a string; the driver
  refuses an integer.
\<close>

fun slug_param :: "jval \<Rightarrow> exn + string" where
  "slug_param (JStr s) = Inr s"
| "slug_param (JInt n) = Inl (DBAPIError ''invalid input for query argument $1 (expected str, got int)'')"

text \<open>
  \<open>get_current_user_context\<close>. \<open>credentials\<close> is \<open>None\<close> when the request has no
  bearer token, else the token; \<open>jwt_decode\<close> is the library call of line 36.
  The function does not look into the token itself, so its type is left open.
  The result is the tuple \<open>(user_id, context, tenant_slug)\<close>.
\<close>

definition get_current_user_context ::
  "('tok \<Rightarrow> jwt_error + claims) \<Rightarrow> 'tok option \<Rightarrow> db \<Rightarrow> exn + (int \<times> string \<times> string option)" where
  "get_current_user_context jwt_decode credentials db_session =
     (case credentials of
        None \<Rightarrow> Inl (HTTPException 401 ''Not authenticated'')
      | Some tok \<Rightarrow>
     (case jwt_decode tok of
        Inl ExpiredSignatureError \<Rightarrow> Inl (HTTPException 401 ''Token has expired'')
      | Inl InvalidTokenError \<Rightarrow> Inl (HTTPException 401 ''Invalid token'')
      | Inr payload \<Rightarrow>
     (let user_id_str = map_of payload ''sub'';
          context = map_of payload ''context''
      in
      if py_not user_id_str \<or> py_not context then Inl (HTTPException 401 ''Invalid token payload'')
      else
     (case py_int (the user_id_str) of
        None \<Rightarrow> Inl (HTTPException 401 ''Invalid user ID in token'')
      | Some user_id \<Rightarrow>
      if context = Some (JStr ''core'') then
        (case get_core_user_by_id user_id db_session of
           None \<Rightarrow> Inl (HTTPException 401 ''User not found or inactive'')
         | Some user \<Rightarrow>
             if \<not> cu_is_active user then Inl (HTTPException 401 ''User not found or inactive'')
             else Inr (user_id, ''core'', None))
      else if context = Some (JStr ''tenant'') then
        (let tenant_slug = map_of payload ''tenant'';
             org_id = map_of payload ''org_id''
         in
         if py_not tenant_slug \<or> py_not org_id then Inl (HTTPException 401 ''Invalid tenant token payload'')
         else
        (case slug_param (the tenant_slug) of
           Inl e \<Rightarrow> Inl e
         | Inr slug \<Rightarrow>
        (case get_organization_by_slug slug db_session of
           None \<Rightarrow> Inl (HTTPException 401 ''Invalid tenant in token'')
         | Some organization \<Rightarrow>
             if JInt (o_id organization) \<noteq> the org_id then Inl (HTTPException 401 ''Invalid tenant in token'')
             else Inr (user_id, ''tenant'', Some slug))))
      else Inl (HTTPException 401 ''Invalid context in token'')))))"

definition get_current_core_user_id :: "int \<times> string \<times> string option \<Rightarrow> exn + int" where
  "get_current_core_user_id context_data =
     (case context_data of (user_id, context, _) \<Rightarrow>
        if context \<noteq> ''core'' then Inl (HTTPException 403 ''Access denied. Core user required'')
        else Inr user_id)"

definition get_current_tenant_user_id :: "int \<times> string \<times> string option \<Rightarrow> exn + (int \<times> string)" where
  "get_current_tenant_user_id context_data =
     (case context_data of (user_id, context, tenant_slug) \<Rightarrow>
        if context \<noteq> ''tenant'' then Inl (HTTPException 403 ''Access denied. Tenant user required'')
        else (case tenant_slug of
                None \<Rightarrow> Inl (HTTPException 401 ''Missing tenant information'')
              | Some slug \<Rightarrow>
                  if slug = [] then Inl (HTTPException 401 ''Missing tenant information'')
                  else Inr (user_id, slug)))"

section \<open>api/services.py\<close>

text \<open>
  The token constructors \<open>create_access_token\<close>, \<open>create_refresh_token\<close> and
  \<open>decode_token\<close> (api/jwt.py) are parameters of the services that call them, and
  so is \<open>verify_password\<close>, whose body is \<open>password.encode\<close> and \<open>bcrypt.checkpw\<close>:
  it answers \<open>True\<close> or \<open>False\<close>, or raises (\<open>bcrypt.checkpw\<close> raises \<open>ValueError\<close>
  for a stored value that is not a bcrypt hash). It is called only when a user
  was found, \<open>or\<close> being evaluated left to right.
\<close>

record 'tok auth_result =
  ar_success :: bool
  ar_message :: string
  ar_access_token :: 'tok
  ar_refresh_token :: 'tok
  ar_user_id :: int
  ar_context :: string

definition authenticate_core_user ::
  "(string \<Rightarrow> string \<Rightarrow> exn + bool) \<Rightarrow> (claims \<Rightarrow> 'tok) \<Rightarrow> (claims \<Rightarrow> 'tok) \<Rightarrow>
   string \<Rightarrow> string \<Rightarrow> db \<Rightarrow> exn + 'tok auth_result" where
  "authenticate_core_user verify_password create_access_token create_refresh_token email password db_session =
     (case get_core_user_by_email email db_session of
        None \<Rightarrow> Inl (ValueError ''Invalid credentials'')
      | Some user \<Rightarrow>
     (case verify_password password (cu_hashed_password user) of
        Inl e \<Rightarrow> Inl e
      | Inr verified \<Rightarrow>
          if \<not> verified then Inl (ValueError ''Invalid credentials'')
          else if \<not> cu_is_active user then Inl (ValueError ''Account is inactive'')
          else Inr \<lparr>
            ar_success = True,
            ar_message = ''Authentication successful'',
            ar_access_token = create_access_token
              [(''sub'', JStr (py_str (cu_id user))), (''context'', JStr ''core''),
               (''email'', JStr (cu_email user))],
            ar_refresh_token = create_refresh_token
              [(''sub'', JStr (py_str (cu_id user))), (''context'', JStr ''core'')],
            ar_user_id = cu_id user,
            ar_context = ''core'' \<rparr>))"

definition get_tenant_session :: "string \<Rightarrow> db \<Rightarrow> exn + (db \<times> organization)" where
  "get_tenant_session tenant_slug core_db_session =
     (case get_organization_by_slug tenant_slug core_db_session of
        None \<Rightarrow> Inl (ValueError ''Tenant not found'')
      | Some organization \<Rightarrow> Inr (core_db_session, organization))"

definition authenticate_tenant_user ::
  "(string \<Rightarrow> string \<Rightarrow> exn + bool) \<Rightarrow> (claims \<Rightarrow> 'tok) \<Rightarrow> (claims \<Rightarrow> 'tok) \<Rightarrow>
   string \<Rightarrow> string \<Rightarrow> string \<Rightarrow> db \<Rightarrow> exn + 'tok auth_result" where
  "authenticate_tenant_user verify_password create_access_token create_refresh_token
       email password tenant_slug core_db_session =
     (case get_tenant_session tenant_slug core_db_session of
        Inl e \<Rightarrow> Inl e
      | Inr (tenant_session, organization) \<Rightarrow>
     (case get_tenant_user_by_email email tenant_session of
        None \<Rightarrow> Inl (ValueError ''Invalid credentials'')
      | Some user \<Rightarrow>
     (case verify_password password (tu_hashed_password user) of
        Inl e \<Rightarrow> Inl e
      | Inr verified \<Rightarrow>
          if \<not> verified then Inl (ValueError ''Invalid credentials'')
          else if \<not> tu_is_active user then Inl (ValueError ''Account is inactive'')
          else Inr \<lparr>
            ar_success = True,
            ar_message = ''Authentication successful'',
            ar_access_token = create_access_token
              [(''sub'', JStr (py_str (tu_id user))), (''context'', JStr ''tenant''),
               (''tenant'', JStr tenant_slug), (''org_id'', JInt (o_id organization)),
               (''email'', JStr (tu_email user))],
            ar_refresh_token = create_refresh_token
              [(''sub'', JStr (py_str (tu_id user))), (''context'', JStr ''tenant''),
               (''tenant'', JStr tenant_slug), (''org_id'', JInt (o_id organization))],
            ar_user_id = tu_id user,
            ar_context = ''tenant'' \<rparr>)))"

definition get_tenant_user_profile :: "int \<Rightarrow> string \<Rightarrow> db \<Rightarrow> exn + tenant_user" where
  "get_tenant_user_profile user_id tenant_slug core_db_session =
     (case get_tenant_session tenant_slug core_db_session of
        Inl e \<Rightarrow> Inl e
      | Inr (tenant_session, _) \<Rightarrow>
     (case get_tenant_user_by_id user_id tenant_session of
        None \<Rightarrow> Inl (ValueError ''User not found'')
      | Some user \<Rightarrow> Inr user))"

text \<open>
  \<open>int(user_id)\<close> outside any \<open>try\<close>: the \<open>ValueError\<close> of \<open>int\<close> propagates. Its
  message names the literal, or the digit limit for a well-formed literal that
  is too long. The literal is put between quotes as it is (\<open>repr\<close> would escape
  quotes and unprintable characters in it).
\<close>

definition int_error_message :: "string \<Rightarrow> string" where
  "int_error_message s =
     (let body = unsigned (strip (to_ascii s))
      in if digit_groups body then
           ''Exceeds the limit (4300 digits) for integer string conversion: value has '' @
           py_str (int (length (filter is_digit body))) @
           '' digits; use sys.set_int_max_str_digits() to increase the limit''
         else ''invalid literal for int() with base 10: '' @ [CHR 0x27] @ s @ [CHR 0x27])"

fun int_or_raise :: "jval \<Rightarrow> exn + int" where
  "int_or_raise (JInt n) = Inr n"
| "int_or_raise (JStr s) =
     (case int_of_string s of
        Some n \<Rightarrow> Inr n
      | None \<Rightarrow> Inl (ValueError (int_error_message s)))"

text \<open>
  \<open>refresh_access_token\<close>. In both branches \<open>token_data\<close> is built from \<open>user.id\<close>
  and \<open>user.email\<close> before the test \<open>not user or not user.is_active\<close> is reached;
  on \<open>None\<close> the attribute access raises \<open>AttributeError\<close>. The result is the
  value of the one key \<open>access_token\<close> of the returned dict.
\<close>

definition refresh_access_token ::
  "('tok \<Rightarrow> exn + claims) \<Rightarrow> (claims \<Rightarrow> 'tok) \<Rightarrow> 'tok \<Rightarrow> db \<Rightarrow> exn + 'tok" where
  "refresh_access_token decode_token create_access_token refresh_token_str db_session =
     (case decode_token refresh_token_str of
        Inl (ValueError m) \<Rightarrow> Inl (ValueError ''Invalid or expired refresh token'')
      | Inl e \<Rightarrow> Inl e
      | Inr payload \<Rightarrow>
     (let user_id = map_of payload ''sub'';
          context = map_of payload ''context''
      in
      if py_not user_id \<or> py_not context then Inl (ValueError ''Invalid token payload'')
      else if context = Some (JStr ''core'') then
        (case int_or_raise (the user_id) of
           Inl e \<Rightarrow> Inl e
         | Inr uid \<Rightarrow>
        (case get_core_user_by_id uid db_session of
           None \<Rightarrow> Inl (AttributeError ''NoneType'' ''id'')
         | Some user \<Rightarrow>
            (let token_data =
               [(''sub'', JStr (py_str (cu_id user))), (''context'', JStr ''core''),
                (''email'', JStr (cu_email user))]
             in
             if \<not> cu_is_active user then Inl (ValueError ''User not found or inactive'')
             else Inr (create_access_token token_data))))
      else if context = Some (JStr ''tenant'') then
        (let tenant_slug = map_of payload ''tenant'';
             org_id = map_of payload ''org_id''
         in
         if py_not tenant_slug \<or> py_not org_id then Inl (ValueError ''Invalid tenant token payload'')
         else
        (case slug_param (the tenant_slug) of
           Inl e \<Rightarrow> Inl e
         | Inr slug \<Rightarrow>
        (case get_tenant_session slug db_session of
           Inl e \<Rightarrow> Inl e
         | Inr (tenant_session, _) \<Rightarrow>
        (case int_or_raise (the user_id) of
           Inl e \<Rightarrow> Inl e
         | Inr uid \<Rightarrow>
        (case get_tenant_user_by_id uid tenant_session of
           None \<Rightarrow> Inl (AttributeError ''NoneType'' ''id'')
         | Some user \<Rightarrow>
            (let token_data =
               [(''sub'', JStr (py_str (tu_id user))), (''context'', JStr ''tenant''),
                (''tenant'', JStr slug), (''org_id'', the org_id),
                (''email'', JStr (tu_email user))]
             in
             if \<not> tu_is_active user then Inl (ValueError ''User not found or inactive'')
             else Inr (create_access_token token_data)))))))
      else Inl (ValueError ''Invalid context'')))"

section \<open>api/endpoints.py\<close>

record login_request =
  lr_email :: string
  lr_password :: string

text \<open>
  \<open>login\<close>. \<open>tenant_context\<close> is the \<open>X-Tenant\<close> header, \<open>None\<close> when absent. The
  handlers of the \<open>try\<close> are written out: a \<open>ValueError\<close> is mapped by its message,
  any other exception becomes a 500.
\<close>

definition login ::
  "(string \<Rightarrow> string \<Rightarrow> exn + bool) \<Rightarrow> (claims \<Rightarrow> 'tok) \<Rightarrow> (claims \<Rightarrow> 'tok) \<Rightarrow>
   login_request \<Rightarrow> string option \<Rightarrow> db \<Rightarrow> exn + 'tok auth_result" where
  "login verify_password create_access_token create_refresh_token login_data tenant_context db_session =
     (case (case tenant_context of
              None \<Rightarrow>
                authenticate_core_user verify_password create_access_token create_refresh_token
                  (lr_email login_data) (lr_password login_data) db_session
            | Some tenant \<Rightarrow>
                if tenant \<noteq> [] then
                  authenticate_tenant_user verify_password create_access_token create_refresh_token
                    (lr_email login_data) (lr_password login_data) tenant db_session
                else
                  authenticate_core_user verify_password create_access_token create_refresh_token
                    (lr_email login_data) (lr_password login_data) db_session) of
        Inr result \<Rightarrow> Inr result
      | Inl (ValueError m) \<Rightarrow>
          if py_in ''Invalid credentials'' m then Inl (HTTPException 401 m)
          else if py_in ''Account is inactive'' m then Inl (HTTPException 401 m)
          else if py_in ''Tenant not found'' m then Inl (HTTPException 404 m)
          else Inl (HTTPException 400 m)
      | Inl e \<Rightarrow> Inl (HTTPException 500 (''Authentication error: '' @ str_exn e)))"

record tenant_user_response =
  r_id :: int
  r_email :: string
  r_first_name :: "string option"
  r_last_name :: "string option"
  r_phone :: "string option"
  r_avatar :: "string option"
  r_bio :: "string option"
  r_is_active :: bool
  r_created_at :: int

definition model_validate :: "tenant_user \<Rightarrow> tenant_user_response" where
  "model_validate user =
     \<lparr> r_id = tu_id user, r_email = tu_email user, r_first_name = tu_first_name user,
       r_last_name = tu_last_name user, r_phone = tu_phone user, r_avatar = tu_avatar user,
       r_bio = tu_bio user, r_is_active = tu_is_active user, r_created_at = tu_created_at user \<rparr>"

text \<open>
  \<open>get_user_profile\<close>. \<open>user_context\<close> is the pair \<open>(user_id, token_tenant)\<close> that
  \<open>get_current_tenant_user_id\<close> returned. The two guards raise \<open>HTTPException\<close>
  inside the \<open>try\<close>; \<open>HTTPException\<close> is an \<open>Exception\<close> and not a \<open>ValueError\<close>,
  so the handler \<open>except Exception\<close> receives it.
\<close>

definition get_user_profile :: "int \<times> string \<Rightarrow> string option \<Rightarrow> db \<Rightarrow> exn + tenant_user_response" where
  "get_user_profile user_context tenant_context db_session =
     (case (case user_context of (user_id, token_tenant) \<Rightarrow>
              if tenant_context = None \<or> tenant_context = Some [] then
                Inl (HTTPException 400 ''X-TENANT header required'')
              else if Some token_tenant \<noteq> tenant_context then
                Inl (HTTPException 403 ''Token tenant does not match request tenant'')
              else
                (case get_tenant_user_profile user_id (the tenant_context) db_session of
                   Inl e \<Rightarrow> Inl e
                 | Inr user \<Rightarrow> Inr (model_validate user))) of
        Inr response \<Rightarrow> Inr response
      | Inl (ValueError m) \<Rightarrow>
          if py_in ''User not found'' m then Inl (HTTPException 404 m)
          else Inl (HTTPException 400 m)
      | Inl e \<Rightarrow> Inl (HTTPException 500 (''Profile retrieval error: '' @ str_exn e)))"

text \<open>
  \<open>TenantUserUpdate\<close>: every field is optional; the outer \<open>None\<close> is a field the
  request did not set (\<open>model_dump(exclude_unset=True)\<close> leaves it out), the
  inner option is the value, which may be null.
\<close>

record tenant_user_update =
  upd_first_name :: "string option option"
  upd_last_name :: "string option option"
  upd_phone :: "string option option"
  upd_avatar :: "string option option"
  upd_bio :: "string option option"

definition set_fields :: "tenant_user_update \<Rightarrow> tenant_user \<Rightarrow> tenant_user" where
  "set_fields update_data user =
     user \<lparr> tu_first_name := (case upd_first_name update_data of None \<Rightarrow> tu_first_name user | Some v \<Rightarrow> v),
            tu_last_name := (case upd_last_name update_data of None \<Rightarrow> tu_last_name user | Some v \<Rightarrow> v),
            tu_phone := (case upd_phone update_data of None \<Rightarrow> tu_phone user | Some v \<Rightarrow> v),
            tu_avatar := (case upd_avatar update_data of None \<Rightarrow> tu_avatar user | Some v \<Rightarrow> v),
            tu_bio := (case upd_bio update_data of None \<Rightarrow> tu_bio user | Some v \<Rightarrow> v) \<rparr>"

fun replace_first :: "('a \<Rightarrow> bool) \<Rightarrow> 'a \<Rightarrow> 'a list \<Rightarrow> 'a list" where
  "replace_first P y [] = []"
| "replace_first P y (x # xs) = (if P x then y # xs else x # replace_first P y xs)"

text \<open>
  \<open>update_tenant_user_profile\<close> (api/services.py) writes the row back on commit;
  the model returns the updated row and the new database. \<open>now\<close> is
  \<open>datetime.utcnow()\<close>.
\<close>

definition update_tenant_user_profile ::
  "int \<Rightarrow> int \<Rightarrow> tenant_user_update \<Rightarrow> string \<Rightarrow> db \<Rightarrow> exn + (tenant_user \<times> db)" where
  "update_tenant_user_profile now user_id update_data tenant_slug core_db_session =
     (case get_tenant_session tenant_slug core_db_session of
        Inl e \<Rightarrow> Inl e
      | Inr (tenant_session, _) \<Rightarrow>
     (case get_tenant_user_by_id user_id tenant_session of
        None \<Rightarrow> Inl (ValueError ''User not found'')
      | Some user \<Rightarrow>
         (let user' = (set_fields update_data user) \<lparr> tu_updated_at := Some now \<rparr>
          in Inr (user', tenant_session \<lparr> tenant_users :=
                    replace_first (\<lambda>u. tu_id u = user_id) user' (tenant_users tenant_session) \<rparr>))))"

definition update_user_profile ::
  "int \<Rightarrow> tenant_user_update \<Rightarrow> int \<times> string \<Rightarrow> string option \<Rightarrow> db \<Rightarrow> exn + (tenant_user_response \<times> db)" where
  "update_user_profile now update_data user_context tenant_context db_session =
     (case (case user_context of (user_id, token_tenant) \<Rightarrow>
              if tenant_context = None \<or> tenant_context = Some [] then
                Inl (HTTPException 400 ''X-TENANT header required'')
              else if Some token_tenant \<noteq> tenant_context then
                Inl (HTTPException 403 ''Token tenant does not match request tenant'')
              else
                (case update_tenant_user_profile now user_id update_data (the tenant_context) db_session of
                   Inl e \<Rightarrow> Inl e
                 | Inr (user, db') \<Rightarrow> Inr (model_validate user, db'))) of
        Inr response \<Rightarrow> Inr response
      | Inl (ValueError m) \<Rightarrow>
          if py_in ''User not found'' m then Inl (HTTPException 404 m)
          else Inl (HTTPException 400 m)
      | Inl e \<Rightarrow> Inl (HTTPException 500 (''Profile update error: '' @ str_exn e)))"

section \<open>Example data\<close>

definition example_org :: "int \<Rightarrow> string \<Rightarrow> bool \<Rightarrow> organization" where
  "example_org i slug active =
     \<lparr> o_id = i, o_name = slug, o_slug = slug, o_description = None, o_is_active = active,
       o_created_at = 0, o_database_name = ''tenant_'' @ slug \<rparr>"

definition example_core_user :: "int \<Rightarrow> string \<Rightarrow> string \<Rightarrow> bool \<Rightarrow> core_user" where
  "example_core_user i email hashed active =
     \<lparr> cu_id = i, cu_email = email, cu_hashed_password = hashed, cu_first_name = None,
       cu_last_name = None, cu_is_active = active, cu_created_at = 0 \<rparr>"

definition example_tenant_user :: "int \<Rightarrow> string \<Rightarrow> string \<Rightarrow> bool \<Rightarrow> int \<Rightarrow> tenant_user" where
  "example_tenant_user i email hashed active org =
     \<lparr> tu_id = i, tu_email = email, tu_hashed_password = hashed, tu_first_name = None,
       tu_last_name = None, tu_phone = None, tu_is_active = active, tu_created_at = 0,
       tu_updated_at = None, tu_avatar = None, tu_bio = None, tu_organization_id = org \<rparr>"

text \<open>
  Two live organizations \<open>acme\<close> (id 1) and \<open>other\<close> (id 2) and a deactivated one;
  tenant user 5 belongs to \<open>other\<close>, tenant user 6 to \<open>acme\<close> and is inactive;
  core user 2 is inactive.
\<close>

definition example_db :: db where
  "example_db =
     \<lparr> core_users =
         [example_core_user 1 ''alice@example.com'' ''hash:Passw0rd!'' True,
          example_core_user 2 ''carol@example.com'' ''hash:Secret123'' False],
       organizations =
         [example_org 1 ''acme'' True, example_org 2 ''other'' True, example_org 3 ''gone'' False],
       tenant_users =
         [example_tenant_user 5 ''bob@other.io'' ''hash:Hunter22'' True 2,
          example_tenant_user 6 ''dan@acme.io'' ''hash:Dan12345'' False 1],
       organization_owners = [(1, 1)] \<rparr>"

text \<open>
  A stand-in for bcrypt: the hash of \<open>p\<close> is \<open>hash:p\<close>, and a stored value of
  another form is refused with \<open>ValueError\<close>, as \<open>bcrypt.checkpw\<close> refuses a
  value that is not a bcrypt hash.
\<close>

definition example_verify_password :: "string \<Rightarrow> string \<Rightarrow> exn + bool" where
  "example_verify_password password hashed_password =
     (if startswith ''hash:'' hashed_password then Inr (hashed_password = ''hash:'' @ password)
      else Inl (ValueError ''Invalid salt''))"

text \<open>The example database with one more core user, whose stored password is no hash.\<close>

definition example_db_unhashed :: db where
  "example_db_unhashed =
     example_db \<lparr> core_users := core_users example_db @
        [example_core_user 3 ''erin@example.com'' ''Plain123'' True] \<rparr>"

definition example_sign :: "string \<Rightarrow> string \<Rightarrow> claims \<Rightarrow> 8 word list" where
  "example_sign secret_key header payload = map of_char (secret_key @ header @ concat (map fst payload))"

section \<open>The builtin \<open>int\<close>\<close>

text \<open>
  \<open>int\<close> raises exactly on the strings that do not have the shape of a literal,
  and the plain decimal representations of up to 4300 characters have it.
\<close>

lemma no_double_underscore_digit:
  "c \<noteq> CHR ''_'' \<Longrightarrow> no_double_underscore (c # cs) = no_double_underscore cs"
  by (cases cs) auto

lemma not_digit_underscore: "\<not> is_digit CHR ''_''"
  by (simp add: is_digit_def)

lemma parse_digits_shape:
  "parse_digits b acc cs \<noteq> None \<longleftrightarrow>
     list_all (\<lambda>c. is_digit c \<or> c = CHR ''_'') cs \<and> (cs = [] \<longrightarrow> b) \<and>
     (cs \<noteq> [] \<longrightarrow> (hd cs = CHR ''_'' \<longrightarrow> b) \<and> is_digit (last cs)) \<and>
     no_double_underscore cs"
proof (induction cs arbitrary: b acc)
  case Nil
  show ?case by simp
next
  case (Cons c cs)
  show ?case
  proof (cases "is_digit c")
    case True
    then have c: "c \<noteq> CHR ''_''" using not_digit_underscore by auto
    from True c show ?thesis
      using Cons.IH [of True "10 * acc + digit_val c"]
      by (cases cs) (auto simp: no_double_underscore_digit)
  next
    case False
    show ?thesis
    proof (cases "c = CHR ''_'' \<and> b")
      case True
      with False show ?thesis
        using Cons.IH [of False acc] not_digit_underscore
        by (cases cs) auto
    next
      case no: False
      with False show ?thesis by auto
    qed
  qed
qed

lemma parse_digits_groups: "parse_digits False 0 body \<noteq> None \<longleftrightarrow> digit_groups body"
proof (cases body)
  case Nil
  then show ?thesis by (simp add: digit_groups_def)
next
  case (Cons c cs)
  have "is_digit c \<longleftrightarrow> (is_digit c \<or> c = CHR ''_'') \<and> c \<noteq> CHR ''_''"
    using not_digit_underscore by auto
  with Cons show ?thesis
    unfolding parse_digits_shape digit_groups_def by auto
qed

lemma int_of_string_None_iff: "int_of_string s = None \<longleftrightarrow> \<not> int_literal s"
  using parse_digits_groups [of "unsigned (strip (to_ascii s))"]
  by (auto simp: int_of_string_def int_literal_def Let_def)

lemma to_ascii_ascii: "list_all (\<lambda>c. (of_char c :: nat) < 128) s \<Longrightarrow> to_ascii s = s"
  by (induction s) auto

lemma strip_unchanged:
  assumes "s \<noteq> []" "\<not> is_space (hd s)" "\<not> is_space (last s)"
  shows "strip s = s"
proof -
  have front: "dropWhile is_space s = s"
    using assms by (cases s) simp_all
  from assms(1) obtain ys y where split: "s = ys @ [y]"
    by (cases s rule: rev_cases) auto
  with assms(3) have rear: "dropWhile is_space (rev s) = rev s"
    by simp
  show ?thesis by (simp add: strip_def front rear)
qed

lemma digits_no_double_underscore: "list_all is_digit cs \<Longrightarrow> no_double_underscore cs"
proof (induction cs)
  case Nil
  show ?case by simp
next
  case (Cons c cs)
  then have "c \<noteq> CHR ''_''" using not_digit_underscore by auto
  with Cons show ?case by (simp add: no_double_underscore_digit)
qed

lemma digits_groups: "cs \<noteq> [] \<Longrightarrow> list_all is_digit cs \<Longrightarrow> digit_groups cs"
  unfolding digit_groups_def
  by (auto simp: list_all_iff digits_no_double_underscore)

lemma digit_facts:
  "is_digit c \<Longrightarrow> (of_char c :: nat) < 128 \<and> \<not> is_space c \<and> c \<noteq> CHR ''-'' \<and> c \<noteq> CHR ''+''"
  by (auto simp: is_digit_def is_space_def Let_def)

lemma decimal_representation_is_literal:
  assumes dec: "decimal_representation s" and short: "length s \<le> max_str_digits"
  shows "int_literal s"
proof -
  from dec have nonempty: "s \<noteq> []"
    by (cases s) (auto simp: decimal_representation_def)
  define body where "body = (if hd s = CHR ''-'' then tl s else s)"
  from dec have digits: "body \<noteq> [] \<and> list_all is_digit body"
    by (cases s) (auto simp: decimal_representation_def body_def)
  have ascii: "list_all (\<lambda>c. (of_char c :: nat) < 128) s"
    using dec digit_facts
    by (cases s) (auto simp: decimal_representation_def list_all_iff split: if_splits)
  have last_digit: "is_digit (last s)"
    using dec by (cases s) (auto simp: decimal_representation_def list_all_iff split: if_splits)
  have first: "hd s = CHR ''-'' \<or> is_digit (hd s)"
    using dec by (cases s) (auto simp: decimal_representation_def split: if_splits)
  have ends: "\<not> is_space (hd s)" "\<not> is_space (last s)"
    using first last_digit digit_facts by (auto simp: is_space_def)
  have "strip s = s"
    using nonempty ends by (rule strip_unchanged)
  then have stripped: "strip (to_ascii s) = s"
    by (simp only: to_ascii_ascii [OF ascii])
  have "unsigned s = body"
    using nonempty first digit_facts by (cases s) (auto simp: unsigned_def body_def)
  with stripped have unsigned_body: "unsigned (strip (to_ascii s)) = body"
    by simp
  have "length body \<le> length s"
    by (simp add: body_def)
  then have "length (filter is_digit body) \<le> max_str_digits"
    using short length_filter_le [of is_digit body] by linarith
  with digits show ?thesis
    unfolding int_literal_def Let_def unsigned_body by (simp add: digits_groups)
qed

lemma int_examples:
  "int_of_string ''42'' = Some 42" "int_of_string ''6'' = Some 6" "int_of_string ''7'' = Some 7"
  "int_of_string ''2'' = Some 2" "int_of_string ''5'' = Some 5" "int_of_string ''1'' = Some 1"
  "int_of_string '' 1'' = Some 1" "int_of_string ''1_0'' = Some 10"
  by code_simp+

lemma shape_examples:
  "\<not> int_literal ''7a''" "\<not> int_literal ''1__0''" "\<not> int_literal [CHR 0x1C, CHR ''1'']"
  "int_literal [CHR 0xC2, CHR 0xA0, CHR ''1'']"
  "\<not> decimal_representation '' 1''" "\<not> decimal_representation ''1_0''"
  by code_simp+

section \<open>Tenant resolution\<close>

lemma find_None_iff_all: "find P xs = None \<longleftrightarrow> (\<forall>x\<in>set xs. \<not> P x)"
  by (induction xs) auto

lemma find_Some_member: "find P xs = Some x \<Longrightarrow> x \<in> set xs \<and> P x"
  by (induction xs) (auto split: if_splits)

lemma distinct_map_eq: "distinct (map f xs) \<Longrightarrow> x \<in> set xs \<Longrightarrow> y \<in> set xs \<Longrightarrow> f x = f y \<Longrightarrow> x = y"
  by (meson distinct_map inj_onD)

text \<open>
  C5. The slug column is unique (models.py). Resolving a slug fails with
  \<open>ValueError("Tenant not found")\<close> exactly when no organization has the slug or
  the organization that has it is inactive; both causes give that one error
  value. When it does not fail it returns the session together with an
  organization of the table that has the slug and is active.
\<close>

theorem get_tenant_session_not_found_iff:
  assumes uniq: "distinct (map o_slug (organizations db_session))"
  shows "(get_tenant_session slug db_session = Inl (ValueError ''Tenant not found'') \<longleftrightarrow>
            (\<forall>org\<in>set (organizations db_session). o_slug org \<noteq> slug) \<or>
            (\<exists>org\<in>set (organizations db_session). o_slug org = slug \<and> \<not> o_is_active org))
       \<and> (get_tenant_session slug db_session \<noteq> Inl (ValueError ''Tenant not found'') \<longrightarrow>
            (\<exists>org. get_tenant_session slug db_session = Inr (db_session, org) \<and>
                   org \<in> set (organizations db_session) \<and> o_slug org = slug \<and> o_is_active org))"
proof -
  let ?orgs = "organizations db_session"
  let ?P = "\<lambda>org. o_slug org = slug \<and> o_is_active org = True"
  show ?thesis
  proof (cases "find ?P ?orgs")
    case None
    then have none_live: "\<forall>org\<in>set ?orgs. \<not> ?P org"
      by (simp add: find_None_iff_all)
    have fails: "get_tenant_session slug db_session = Inl (ValueError ''Tenant not found'')"
      using None by (simp add: get_tenant_session_def get_organization_by_slug_def)
    have "(\<forall>org\<in>set ?orgs. o_slug org \<noteq> slug) \<or> (\<exists>org\<in>set ?orgs. o_slug org = slug \<and> \<not> o_is_active org)"
      using none_live by blast
    with fails show ?thesis by simp
  next
    case (Some live)
    then have live: "live \<in> set ?orgs" "o_slug live = slug" "o_is_active live"
      using find_Some_member [of ?P ?orgs live] by simp_all
    have ok: "get_tenant_session slug db_session = Inr (db_session, live)"
      using Some by (simp add: get_tenant_session_def get_organization_by_slug_def)
    have only: "org = live" if "org \<in> set ?orgs" "o_slug org = slug" for org
      using distinct_map_eq [OF uniq that(1) live(1)] that(2) live(2) by simp
    have "\<not> ((\<forall>org\<in>set ?orgs. o_slug org \<noteq> slug) \<or> (\<exists>org\<in>set ?orgs. o_slug org = slug \<and> \<not> o_is_active org))"
      using live only by blast
    with ok live show ?thesis by simp
  qed
qed

lemmas example_rows =
  example_db_def example_org_def example_core_user_def example_tenant_user_def

lemma py_str_examples:
  "py_str 5 = ''5''" "py_str 400 = ''400''" "py_str 403 = ''403''"
  by code_simp+

theorem get_tenant_session_not_found_iff_witness:
  "distinct (map o_slug (organizations example_db))
   \<and> get_tenant_session ''gone'' example_db = Inl (ValueError ''Tenant not found'')
   \<and> get_tenant_session ''nowhere'' example_db = Inl (ValueError ''Tenant not found'')
   \<and> (\<exists>org. get_tenant_session ''acme'' example_db = Inr (example_db, org) \<and> o_is_active org)"
proof -
  have uniq: "distinct (map o_slug (organizations example_db))"
    by (simp add: example_rows)
  have inactive: "\<exists>org\<in>set (organizations example_db). o_slug org = ''gone'' \<and> \<not> o_is_active org"
    by (simp add: example_rows)
  have absent: "\<forall>org\<in>set (organizations example_db). o_slug org \<noteq> ''nowhere''"
    by (simp add: example_rows)
  have present: "\<not> ((\<forall>org\<in>set (organizations example_db). o_slug org \<noteq> ''acme'') \<or>
      (\<exists>org\<in>set (organizations example_db). o_slug org = ''acme'' \<and> \<not> o_is_active org))"
    by (simp add: example_rows)
  from get_tenant_session_not_found_iff [OF uniq, of "''gone''"] inactive
  have g: "get_tenant_session ''gone'' example_db = Inl (ValueError ''Tenant not found'')" by blast
  from get_tenant_session_not_found_iff [OF uniq, of "''nowhere''"] absent
  have n: "get_tenant_session ''nowhere'' example_db = Inl (ValueError ''Tenant not found'')" by blast
  from get_tenant_session_not_found_iff [OF uniq, of "''acme''"] present
  have a: "\<exists>org. get_tenant_session ''acme'' example_db = Inr (example_db, org) \<and> o_is_active org" by blast
  from uniq g n a show ?thesis by blast
qed

section \<open>Token codec: round trip and failure kinds\<close>

lemma slug_param_error: "slug_param v = Inl e \<Longrightarrow> \<exists>m. e = DBAPIError m"
  by (cases v) auto

lemma decoded_payload_details:
  assumes "jwt_decode tok = Inr payload"
  shows "get_current_user_context jwt_decode (Some tok) db_session \<noteq> Inl (HTTPException 401 ''Token has expired'')
       \<and> get_current_user_context jwt_decode (Some tok) db_session \<noteq> Inl (HTTPException 401 ''Invalid token'')"
  using assms
  by (auto simp: get_current_user_context_def Let_def split: option.split sum.split
      dest!: slug_param_error)

lemma xor_flips_byte: "bits \<noteq> 0 \<Longrightarrow> (b :: 8 word) XOR bits \<noteq> b"
proof
  assume a: "bits \<noteq> 0" "b XOR bits = b"
  then have "b XOR (b XOR bits) = b XOR b" by simp
  then have "bits = 0" by (simp flip: xor.assoc)
  with a show False by simp
qed

lemma flipped_signature_differs:
  "i < length s \<Longrightarrow> bits \<noteq> 0 \<Longrightarrow> s[i := (s ! i :: 8 word) XOR bits] \<noteq> s"
  by (metis nth_list_update_eq xor_flips_byte)

text \<open>
  C9. A token issued from a claim set \<open>c\<close> at time \<open>issued_at\<close> with lifetime
  \<open>ttl\<close> verifies at any time up to its expiry, and the claim set that comes
  back has \<open>c\<close>'s entry under every key other than \<open>iat\<close> and \<open>exp\<close>, no other
  such key, \<open>iat = issued_at\<close> and \<open>exp = issued_at + ttl\<close>.
\<close>

theorem issue_verify_roundtrip:
  assumes "now \<le> issued_at + ttl"
  shows "\<exists>decoded. verify sign secret_key now (issue sign secret_key issued_at c ttl) = Inr decoded
            \<and> (\<forall>k. k \<noteq> ''iat'' \<longrightarrow> k \<noteq> ''exp'' \<longrightarrow> map_of decoded k = map_of c k)
            \<and> map_of decoded ''iat'' = Some (JInt issued_at)
            \<and> map_of decoded ''exp'' = Some (JInt (issued_at + ttl))"
  using assms by (simp add: verify_def issue_def Let_def AList.update_conv')

text \<open>
  C6. Verification fails in two ways only. It fails as expired exactly for a
  well-formed, correctly signed token whose \<open>exp\<close> lies before \<open>now\<close>, and as
  malformed exactly for text that does not parse or a signature that does not
  verify. Changing any byte of a correct signature gives a token that fails as
  malformed, whatever its expiry. The caller sees the difference:
  \<open>get_current_user_context\<close> answers "Token has expired" for the first kind and
  "Invalid token" for the second, and for nothing else.
\<close>

theorem verify_failure_kinds:
  "(verify sign secret_key now tok = Inl ExpiredError \<longleftrightarrow>
      (\<exists>header payload expires_at. tok = Compact header payload (sign secret_key header payload)
          \<and> map_of payload ''exp'' = Some (JInt expires_at) \<and> now > expires_at))
 \<and> (verify sign secret_key now tok = Inl MalformedError \<longleftrightarrow>
      (\<exists>text. tok = Garbled text) \<or>
      (\<exists>header payload signature. tok = Compact header payload signature
          \<and> signature \<noteq> sign secret_key header payload))
 \<and> (\<forall>header payload i bits. i < length (sign secret_key header payload) \<longrightarrow> bits \<noteq> 0 \<longrightarrow>
      verify sign secret_key now
        (Compact header payload
           ((sign secret_key header payload)[i := sign secret_key header payload ! i XOR bits]))
        = Inl MalformedError)
 \<and> (get_current_user_context (pyjwt_decode sign secret_key now) (Some tok) db_session
        = Inl (HTTPException 401 ''Token has expired'') \<longleftrightarrow>
      verify sign secret_key now tok = Inl ExpiredError)
 \<and> (get_current_user_context (pyjwt_decode sign secret_key now) (Some tok) db_session
        = Inl (HTTPException 401 ''Invalid token'') \<longleftrightarrow>
      verify sign secret_key now tok = Inl MalformedError)"
proof (intro conjI allI impI)
  show "verify sign secret_key now tok = Inl ExpiredError \<longleftrightarrow>
      (\<exists>header payload expires_at. tok = Compact header payload (sign secret_key header payload)
          \<and> map_of payload ''exp'' = Some (JInt expires_at) \<and> now > expires_at)"
    by (cases tok) (auto simp: verify_def split: option.splits jval.splits)
next
  show "verify sign secret_key now tok = Inl MalformedError \<longleftrightarrow>
      (\<exists>text. tok = Garbled text) \<or>
      (\<exists>header payload signature. tok = Compact header payload signature
          \<and> signature \<noteq> sign secret_key header payload)"
    by (cases tok) (auto simp: verify_def split: option.splits jval.splits)
next
  fix header payload i and bits :: "8 word"
  assume "i < length (sign secret_key header payload)" "bits \<noteq> 0"
  then show "verify sign secret_key now
        (Compact header payload
           ((sign secret_key header payload)[i := sign secret_key header payload ! i XOR bits]))
        = Inl MalformedError"
    by (simp add: verify_def flipped_signature_differs)
next
  show "get_current_user_context (pyjwt_decode sign secret_key now) (Some tok) db_session
        = Inl (HTTPException 401 ''Token has expired'') \<longleftrightarrow>
      verify sign secret_key now tok = Inl ExpiredError"
  proof (cases "verify sign secret_key now tok")
    case (Inl e)
    then show ?thesis
      by (cases e) (simp_all add: get_current_user_context_def pyjwt_decode_def)
  next
    case (Inr payload)
    then have "pyjwt_decode sign secret_key now tok = Inr payload"
      by (simp add: pyjwt_decode_def)
    with decoded_payload_details [of "pyjwt_decode sign secret_key now" tok payload db_session] Inr
    show ?thesis by simp
  qed
next
  show "get_current_user_context (pyjwt_decode sign secret_key now) (Some tok) db_session
        = Inl (HTTPException 401 ''Invalid token'') \<longleftrightarrow>
      verify sign secret_key now tok = Inl MalformedError"
  proof (cases "verify sign secret_key now tok")
    case (Inl e)
    then show ?thesis
      by (cases e) (simp_all add: get_current_user_context_def pyjwt_decode_def)
  next
    case (Inr payload)
    then have "pyjwt_decode sign secret_key now tok = Inr payload"
      by (simp add: pyjwt_decode_def)
    with decoded_payload_details [of "pyjwt_decode sign secret_key now" tok payload db_session] Inr
    show ?thesis by simp
  qed
qed


theorem issue_verify_roundtrip_witness:
  "(1500 :: int) \<le> 1000 + 900
   \<and> (\<exists>decoded. verify example_sign ''secret'' 1500
          (issue example_sign ''secret'' 1000 [(''sub'', JStr ''123''), (''context'', JStr ''core'')] 900)
          = Inr decoded
        \<and> map_of decoded ''sub'' = Some (JStr ''123'')
        \<and> map_of decoded ''context'' = Some (JStr ''core'')
        \<and> map_of decoded ''iat'' = Some (JInt 1000)
        \<and> map_of decoded ''exp'' = Some (JInt 1900))"
proof -
  let ?c = "[(''sub'', JStr ''123''), (''context'', JStr ''core'')]"
  have fresh: "(1500 :: int) \<le> 1000 + 900" by simp
  from issue_verify_roundtrip [OF fresh, of example_sign "''secret''" ?c]
  obtain decoded where
    ok: "verify example_sign ''secret'' 1500 (issue example_sign ''secret'' 1000 ?c 900) = Inr decoded"
    and same: "\<forall>k. k \<noteq> ''iat'' \<longrightarrow> k \<noteq> ''exp'' \<longrightarrow> map_of decoded k = map_of ?c k"
    and stamps: "map_of decoded ''iat'' = Some (JInt 1000)" "map_of decoded ''exp'' = Some (JInt (1000 + 900))"
    by blast
  from same have "map_of decoded ''sub'' = map_of ?c ''sub''" "map_of decoded ''context'' = map_of ?c ''context''"
    by simp_all
  then have "map_of decoded ''sub'' = Some (JStr ''123'')" "map_of decoded ''context'' = Some (JStr ''core'')"
    by simp_all
  with fresh ok stamps show ?thesis by simp
qed

theorem verify_failure_kinds_witness:
  "verify example_sign ''secret'' 2000
     (Compact ''HS256'' [(''sub'', JStr ''123''), (''exp'', JInt 1900)]
        (example_sign ''secret'' ''HS256'' [(''sub'', JStr ''123''), (''exp'', JInt 1900)]))
     = Inl ExpiredError
   \<and> verify example_sign ''secret'' 2000 (Garbled ''invalid.token.here'') = Inl MalformedError
   \<and> verify example_sign ''secret'' 2000
     (Compact ''HS256'' [(''sub'', JStr ''123''), (''exp'', JInt 1900)]
        ((example_sign ''secret'' ''HS256'' [(''sub'', JStr ''123''), (''exp'', JInt 1900)])
           [0 := example_sign ''secret'' ''HS256'' [(''sub'', JStr ''123''), (''exp'', JInt 1900)] ! 0 XOR 1]))
     = Inl MalformedError
   \<and> get_current_user_context (pyjwt_decode example_sign ''secret'' 2000)
     (Some (Compact ''HS256'' [(''sub'', JStr ''123''), (''exp'', JInt 1900)]
        (example_sign ''secret'' ''HS256'' [(''sub'', JStr ''123''), (''exp'', JInt 1900)]))) example_db
     = Inl (HTTPException 401 ''Token has expired'')
   \<and> get_current_user_context (pyjwt_decode example_sign ''secret'' 2000)
     (Some (Garbled ''invalid.token.here'')) example_db
     = Inl (HTTPException 401 ''Invalid token'')"
proof -
  let ?p = "[(''sub'', JStr ''123''), (''exp'', JInt 1900)]"
  let ?s = "example_sign ''secret'' ''HS256'' ?p"
  have expired: "verify example_sign ''secret'' 2000 (Compact ''HS256'' ?p ?s) = Inl ExpiredError"
    by (rule verify_failure_kinds [THEN conjunct1, THEN iffD2]) simp
  have garbled: "verify example_sign ''secret'' 2000 (Garbled ''invalid.token.here'') = Inl MalformedError"
    by (rule verify_failure_kinds [THEN conjunct2, THEN conjunct1, THEN iffD2]) simp
  have flipped: "verify example_sign ''secret'' 2000 (Compact ''HS256'' ?p (?s[0 := ?s ! 0 XOR 1]))
      = Inl MalformedError"
    by (rule verify_failure_kinds [THEN conjunct2, THEN conjunct2, THEN conjunct1, rule_format])
       (simp_all add: example_sign_def)
  have seen_expired: "get_current_user_context (pyjwt_decode example_sign ''secret'' 2000)
      (Some (Compact ''HS256'' ?p ?s)) example_db = Inl (HTTPException 401 ''Token has expired'')"
    by (rule verify_failure_kinds [THEN conjunct2, THEN conjunct2, THEN conjunct2, THEN conjunct1, THEN iffD2])
       (rule expired)
  have seen_invalid: "get_current_user_context (pyjwt_decode example_sign ''secret'' 2000)
      (Some (Garbled ''invalid.token.here'')) example_db = Inl (HTTPException 401 ''Invalid token'')"
    by (rule verify_failure_kinds [THEN conjunct2, THEN conjunct2, THEN conjunct2, THEN conjunct2, THEN iffD2])
       (rule garbled)
  from expired garbled flipped seen_expired seen_invalid show ?thesis by blast
qed

section \<open>Context resolution\<close>

text \<open>The rows of \<open>tenant_users\<close> have no influence on context resolution.\<close>

lemma context_resolution_ignores_tenant_users:
  "get_current_user_context jwt_decode credentials (db_session \<lparr> tenant_users := rows \<rparr>)
     = get_current_user_context jwt_decode credentials db_session"
  by (simp add: get_current_user_context_def get_core_user_by_id_def get_organization_by_slug_def
      cong: option.case_cong sum.case_cong if_cong)

text \<open>
  C1. The specification asks that a tenant-context token whose tenant binding checks out
  is accepted only for a present, active tenant user. The tenant branch of
  \<open>get_current_user_context\<close> returns right after the organization check and
  never reads the tenant users: with no tenant user 42 in the database, and
  with the inactive tenant user 6, the token is accepted. The core branch of
  the same function does look its user up and rejects an absent or inactive one.
\<close>

theorem tenant_context_accepts_absent_and_inactive_user:
  "get_tenant_user_by_id 42 example_db = None
   \<and> get_current_user_context Inr
        (Some [(''sub'', JStr ''42''), (''context'', JStr ''tenant''),
               (''tenant'', JStr ''acme''), (''org_id'', JInt 1)]) example_db
      = Inr (42, ''tenant'', Some ''acme'')
   \<and> map_option tu_is_active (get_tenant_user_by_id 6 example_db) = Some False
   \<and> get_current_user_context Inr
        (Some [(''sub'', JStr ''6''), (''context'', JStr ''tenant''),
               (''tenant'', JStr ''acme''), (''org_id'', JInt 1)]) example_db
      = Inr (6, ''tenant'', Some ''acme'')
   \<and> get_core_user_by_id 42 example_db = None
   \<and> get_current_user_context Inr
        (Some [(''sub'', JStr ''42''), (''context'', JStr ''core'')]) example_db
      = Inl (HTTPException 401 ''User not found or inactive'')"
  by (simp add: get_current_user_context_def get_tenant_user_by_id_def get_core_user_by_id_def
      get_organization_by_slug_def example_rows int_examples)

lemma tenant_context_outcomes:
  assumes decoded: "jwt_decode tok = Inr payload"
      and tenant_ctx: "map_of payload ''context'' = Some (JStr ''tenant'')"
  shows "(\<exists>detail. get_current_user_context jwt_decode (Some tok) db_session = Inl (HTTPException 401 detail))
       \<or> (\<exists>n. map_of payload ''tenant'' = Some (JInt n))
       \<or> (\<exists>slug org. map_of payload ''tenant'' = Some (JStr slug)
             \<and> get_organization_by_slug slug db_session = Some org
             \<and> map_of payload ''org_id'' = Some (JInt (o_id org)))"
proof (cases "py_not (map_of payload ''sub'')")
  case True
  with decoded show ?thesis by (simp add: get_current_user_context_def)
next
  case sub_ok: False
  show ?thesis
  proof (cases "py_int (the (map_of payload ''sub''))")
    case None
    with decoded sub_ok tenant_ctx show ?thesis by (simp add: get_current_user_context_def)
  next
    case (Some user_id)
    show ?thesis
    proof (cases "py_not (map_of payload ''tenant'') \<or> py_not (map_of payload ''org_id'')")
      case True
      with decoded sub_ok tenant_ctx Some show ?thesis
        by (simp add: get_current_user_context_def)
    next
      case False
      then obtain t v where t: "map_of payload ''tenant'' = Some t"
        and v: "map_of payload ''org_id'' = Some v" and tv: "\<not> falsy t" "\<not> falsy v"
        by (cases "map_of payload ''tenant''"; cases "map_of payload ''org_id''") auto
      show ?thesis
      proof (cases t)
        case (JInt n)
        with t show ?thesis by simp
      next
        case (JStr slug)
        show ?thesis
        proof (cases "get_organization_by_slug slug db_session")
          case None
          with decoded sub_ok tenant_ctx Some t v tv JStr show ?thesis
            by (simp add: get_current_user_context_def)
        next
          case org: (Some org)
          show ?thesis
          proof (cases "JInt (o_id org) = v")
            case True
            with t v JStr org show ?thesis by simp
          next
            case False
            with decoded sub_ok tenant_ctx Some t v tv JStr org show ?thesis
              by (simp add: get_current_user_context_def)
          qed
        qed
      qed
    qed
  qed
qed


text \<open>
  C4. For a token that verifies and whose context is \<open>tenant\<close>: if the live
  organization found for the token's tenant slug has an id other than the
  token's \<open>org_id\<close>, or no live organization has that slug, resolution ends in a
  401 and no context tuple is returned. The tenant claim is a string when it is
  present, as the tokens of this system have it.
\<close>

theorem tenant_binding_mismatch_unauthenticated:
  assumes decoded: "jwt_decode tok = Inr payload"
      and tenant_ctx: "map_of payload ''context'' = Some (JStr ''tenant'')"
      and slug_typed: "\<forall>n. map_of payload ''tenant'' \<noteq> Some (JInt n)"
      and mismatch: "\<forall>slug org. map_of payload ''tenant'' = Some (JStr slug) \<longrightarrow>
                       get_organization_by_slug slug db_session = Some org \<longrightarrow>
                       map_of payload ''org_id'' \<noteq> Some (JInt (o_id org))"
  shows "\<exists>detail. get_current_user_context jwt_decode (Some tok) db_session
                     = Inl (HTTPException 401 detail)"
  using tenant_context_outcomes [of jwt_decode tok payload db_session] decoded tenant_ctx slug_typed mismatch
  by blast

theorem tenant_binding_mismatch_unauthenticated_witness:
  "(\<exists>detail. get_current_user_context Inr
     (Some [(''sub'', JStr ''5''), (''context'', JStr ''tenant''),
            (''tenant'', JStr ''acme''), (''org_id'', JInt 2)]) example_db
     = Inl (HTTPException 401 detail))
   \<and> (\<exists>detail. get_current_user_context Inr
     (Some [(''sub'', JStr ''5''), (''context'', JStr ''tenant''),
            (''tenant'', JStr ''gone''), (''org_id'', JInt 3)]) example_db
     = Inl (HTTPException 401 detail))"
proof -
  let ?p = "[(''sub'', JStr ''5''), (''context'', JStr ''tenant''),
            (''tenant'', JStr ''acme''), (''org_id'', JInt 2)]"
  let ?q = "[(''sub'', JStr ''5''), (''context'', JStr ''tenant''),
            (''tenant'', JStr ''gone''), (''org_id'', JInt 3)]"
  have acme: "get_organization_by_slug ''acme'' example_db = Some (example_org 1 ''acme'' True)"
    by (simp add: get_organization_by_slug_def example_rows)
  have gone: "get_organization_by_slug ''gone'' example_db = None"
    by (simp add: get_organization_by_slug_def example_rows)
  have first: "\<exists>detail. get_current_user_context Inr (Some ?p) example_db = Inl (HTTPException 401 detail)"
  proof (rule tenant_binding_mismatch_unauthenticated [of Inr ?p ?p])
    show "Inr ?p = (Inr ?p :: jwt_error + claims)" by simp
    show "map_of ?p ''context'' = Some (JStr ''tenant'')" by simp
    show "\<forall>n. map_of ?p ''tenant'' \<noteq> Some (JInt n)" by simp
    show "\<forall>slug org. map_of ?p ''tenant'' = Some (JStr slug) \<longrightarrow>
            get_organization_by_slug slug example_db = Some org \<longrightarrow>
            map_of ?p ''org_id'' \<noteq> Some (JInt (o_id org))"
      using acme by (auto simp: example_org_def)
  qed
  have second: "\<exists>detail. get_current_user_context Inr (Some ?q) example_db = Inl (HTTPException 401 detail)"
  proof (rule tenant_binding_mismatch_unauthenticated [of Inr ?q ?q])
    show "Inr ?q = (Inr ?q :: jwt_error + claims)" by simp
    show "map_of ?q ''context'' = Some (JStr ''tenant'')" by simp
    show "\<forall>n. map_of ?q ''tenant'' \<noteq> Some (JInt n)" by simp
    show "\<forall>slug org. map_of ?q ''tenant'' = Some (JStr slug) \<longrightarrow>
            get_organization_by_slug slug example_db = Some org \<longrightarrow>
            map_of ?q ''org_id'' \<noteq> Some (JInt (o_id org))"
      using gone by auto
  qed
  from first second show ?thesis by blast
qed

text \<open>
  The detail "Invalid user ID in token" belongs to one branch only: once the
  subject has been read as an integer, no later failure carries it.
\<close>

lemma parsed_subject_details:
  assumes "jwt_decode tok = Inr payload"
      and "map_of payload ''sub'' = Some sub" "py_int sub = Some user_id"
  shows "get_current_user_context jwt_decode (Some tok) db_session
           \<noteq> Inl (HTTPException 401 ''Invalid user ID in token'')"
  using assms
  by (auto simp: get_current_user_context_def Let_def split: option.split sum.split
      dest!: slug_param_error)

text \<open>
  C10, as amended. For a token that verifies and whose \<open>sub\<close> and \<open>context\<close> are
  both present and truthy: if the subject is a string that \<open>int\<close> does not read
  (it has not the shape of a literal: surrounding whitespace, an optional sign,
  digits with single underscores between them), resolution ends in 401
  "Invalid user ID in token" whatever the database holds, so before any lookup;
  if \<open>int\<close> reads it, resolution never ends in that answer. When \<open>sub\<close> or
  \<open>context\<close> is missing or empty, resolution ends in 401 "Invalid token payload".
\<close>

theorem subject_not_int_literal_unauthenticated:
  assumes decoded: "jwt_decode tok = Inr payload"
  shows "(\<forall>s. map_of payload ''sub'' = Some (JStr s) \<longrightarrow> s \<noteq> [] \<longrightarrow>
              \<not> py_not (map_of payload ''context'') \<longrightarrow> \<not> int_literal s \<longrightarrow>
              (\<forall>db_session. get_current_user_context jwt_decode (Some tok) db_session
                   = Inl (HTTPException 401 ''Invalid user ID in token'')))
       \<and> (\<forall>s. map_of payload ''sub'' = Some (JStr s) \<longrightarrow> int_literal s \<longrightarrow>
              (\<forall>db_session. get_current_user_context jwt_decode (Some tok) db_session
                   \<noteq> Inl (HTTPException 401 ''Invalid user ID in token'')))
       \<and> (py_not (map_of payload ''sub'') \<or> py_not (map_of payload ''context'') \<longrightarrow>
              (\<forall>db_session. get_current_user_context jwt_decode (Some tok) db_session
                   = Inl (HTTPException 401 ''Invalid token payload'')))"
proof (intro conjI allI impI)
  fix s db_session
  assume "map_of payload ''sub'' = Some (JStr s)" "s \<noteq> []"
     "\<not> py_not (map_of payload ''context'')" "\<not> int_literal s"
  moreover from \<open>\<not> int_literal s\<close> have "py_int (JStr s) = None"
    by (simp add: int_of_string_None_iff)
  ultimately show "get_current_user_context jwt_decode (Some tok) db_session
      = Inl (HTTPException 401 ''Invalid user ID in token'')"
    using decoded by (simp add: get_current_user_context_def Let_def)
next
  fix s db_session
  assume sub: "map_of payload ''sub'' = Some (JStr s)" and "int_literal s"
  then obtain user_id where "py_int (JStr s) = Some user_id"
    using int_of_string_None_iff [of s] by (cases "int_of_string s") auto
  with decoded sub show "get_current_user_context jwt_decode (Some tok) db_session
      \<noteq> Inl (HTTPException 401 ''Invalid user ID in token'')"
    by (rule parsed_subject_details)
next
  fix db_session
  assume "py_not (map_of payload ''sub'') \<or> py_not (map_of payload ''context'')"
  with decoded show "get_current_user_context jwt_decode (Some tok) db_session
      = Inl (HTTPException 401 ''Invalid token payload'')"
    by (simp add: get_current_user_context_def Let_def)
qed

theorem subject_not_int_literal_unauthenticated_witness:
  "get_current_user_context Inr (Some [(''sub'', JStr ''7a''), (''context'', JStr ''core'')]) example_db
     = Inl (HTTPException 401 ''Invalid user ID in token'')
   \<and> get_current_user_context Inr
       (Some [(''sub'', JStr [CHR 0x1C, CHR ''1'']), (''context'', JStr ''core'')]) example_db
     = Inl (HTTPException 401 ''Invalid user ID in token'')
   \<and> get_current_user_context Inr
       (Some [(''sub'', JStr [CHR 0xC2, CHR 0xA0, CHR ''1'']), (''context'', JStr ''core'')]) example_db
     \<noteq> Inl (HTTPException 401 ''Invalid user ID in token'')
   \<and> get_current_user_context Inr (Some [(''context'', JStr ''core'')]) example_db
     = Inl (HTTPException 401 ''Invalid token payload'')
   \<and> get_current_user_context Inr (Some [(''sub'', JStr ''1''), (''context'', JStr [])]) example_db
     = Inl (HTTPException 401 ''Invalid token payload'')"
proof -
  let ?p = "[(''sub'', JStr ''7a''), (''context'', JStr ''core'')]"
  let ?c = "[(''sub'', JStr [CHR 0x1C, CHR ''1'']), (''context'', JStr ''core'')]"
  let ?n = "[(''sub'', JStr [CHR 0xC2, CHR 0xA0, CHR ''1'']), (''context'', JStr ''core'')]"
  let ?q = "[(''context'', JStr ''core'')] :: claims"
  let ?r = "[(''sub'', JStr ''1''), (''context'', JStr [])]"
  have p: "map_of ?p ''sub'' = Some (JStr ''7a'')" "''7a'' \<noteq> []"
     "\<not> py_not (map_of ?p ''context'')" by simp_all
  have c: "map_of ?c ''sub'' = Some (JStr [CHR 0x1C, CHR ''1''])" "[CHR 0x1C, CHR ''1''] \<noteq> []"
     "\<not> py_not (map_of ?c ''context'')" by simp_all
  have n: "map_of ?n ''sub'' = Some (JStr [CHR 0xC2, CHR 0xA0, CHR ''1''])" by simp
  have q: "py_not (map_of ?q ''sub'')" by simp
  have r: "py_not (map_of ?r ''context'')" by simp
  have d: "Inr x = (Inr x :: jwt_error + claims)" for x by simp
  from subject_not_int_literal_unauthenticated [of Inr ?p ?p, OF d] p shape_examples(1)
  have a1: "get_current_user_context Inr (Some ?p) example_db
     = Inl (HTTPException 401 ''Invalid user ID in token'')" by blast
  from subject_not_int_literal_unauthenticated [of Inr ?c ?c, OF d] c shape_examples(3)
  have a2: "get_current_user_context Inr (Some ?c) example_db
     = Inl (HTTPException 401 ''Invalid user ID in token'')" by blast
  from subject_not_int_literal_unauthenticated [of Inr ?n ?n, OF d] n shape_examples(4)
  have a3: "get_current_user_context Inr (Some ?n) example_db
     \<noteq> Inl (HTTPException 401 ''Invalid user ID in token'')" by blast
  from subject_not_int_literal_unauthenticated [of Inr ?q ?q, OF d] q
  have a4: "get_current_user_context Inr (Some ?q) example_db
     = Inl (HTTPException 401 ''Invalid token payload'')" by blast
  from subject_not_int_literal_unauthenticated [of Inr ?r ?r, OF d] r
  have a5: "get_current_user_context Inr (Some ?r) example_db
     = Inl (HTTPException 401 ''Invalid token payload'')" by blast
  from a1 a2 a3 a4 a5 show ?thesis by blast
qed

text \<open>
  The subjects \<open>" 1"\<close> and \<open>"1_0"\<close> are not decimal representations of an integer,
  and resolution does not stop at them: \<open>int\<close> reads them as 1 and 10, user 1 is
  looked up and accepted, user 10 is looked up and not found.
\<close>

theorem subject_with_space_or_underscore_is_looked_up:
  "\<not> decimal_representation '' 1''
   \<and> get_current_user_context Inr
        (Some [(''sub'', JStr '' 1''), (''context'', JStr ''core'')]) example_db
      = Inr (1, ''core'', None)
   \<and> \<not> decimal_representation ''1_0''
   \<and> get_current_user_context Inr
        (Some [(''sub'', JStr ''1_0''), (''context'', JStr ''core'')]) example_db
      = Inl (HTTPException 401 ''User not found or inactive'')"
  by (simp add: get_current_user_context_def get_core_user_by_id_def example_rows
      int_examples shape_examples)

section \<open>Login\<close>

lemma find_unique:
  "distinct (map f xs) \<Longrightarrow> x \<in> set xs \<Longrightarrow> find (\<lambda>y. f y = f x) xs = Some x"
  by (induction xs) (auto simp: image_iff)

lemma core_lookup_absent:
  "(\<forall>v\<in>set (core_users db_session). cu_email v \<noteq> e) \<Longrightarrow> get_core_user_by_email e db_session = None"
  by (simp add: get_core_user_by_email_def find_None_iff_all)

lemma core_lookup_present:
  "distinct (map cu_email (core_users db_session)) \<Longrightarrow> u \<in> set (core_users db_session) \<Longrightarrow>
   get_core_user_by_email (cu_email u) db_session = Some u"
  unfolding get_core_user_by_email_def by (rule find_unique)

text \<open>
  What the core login does achieve: an unknown email and a password that the
  check answers \<open>False\<close> for end in the same 401. A check that raises \<open>ValueError\<close>
  ends in a 400 with the check's own message.
\<close>

lemma login_unknown_email:
  assumes "\<forall>v\<in>set (core_users db_session). cu_email v \<noteq> e"
  shows "login vp mk_access mk_refresh \<lparr>lr_email = e, lr_password = p\<rparr> None db_session
           = Inl (HTTPException 401 ''Invalid credentials'')"
  using assms by (simp add: login_def authenticate_core_user_def core_lookup_absent)

lemma login_password_refused:
  assumes "distinct (map cu_email (core_users db_session))" "u \<in> set (core_users db_session)"
      and "vp p (cu_hashed_password u) = Inr False"
  shows "login vp mk_access mk_refresh \<lparr>lr_email = cu_email u, lr_password = p\<rparr> None db_session
           = Inl (HTTPException 401 ''Invalid credentials'')"
  using assms by (simp add: login_def authenticate_core_user_def core_lookup_present)

lemma login_check_raises:
  assumes "distinct (map cu_email (core_users db_session))" "u \<in> set (core_users db_session)"
      and "vp p (cu_hashed_password u) = Inl (ValueError m)"
      and "\<not> py_in ''Invalid credentials'' m" "\<not> py_in ''Account is inactive'' m"
          "\<not> py_in ''Tenant not found'' m"
  shows "login vp mk_access mk_refresh \<lparr>lr_email = cu_email u, lr_password = p\<rparr> None db_session
           = Inl (HTTPException 400 m)"
  using assms by (simp add: login_def authenticate_core_user_def core_lookup_present)

text \<open>
  C8. The specification asks that a login with an email that matches no user of
  the resolved scope and a login with the email of a user whose password does
  not verify end in the same error. Two pairs of runs differ.
  In tenant \<open>acme\<close> (organization 1): the email of tenant user 5 matches no user
  of \<open>acme\<close> (the user belongs to organization 2), yet with that user's password
  the login succeeds, while a wrong password for \<open>acme\<close>'s own user 6 ends in 401
  "Invalid credentials". In the core scope: for the user whose stored password
  is no hash the check raises, and the login ends in 400 "Invalid salt", while
  an unknown email ends in 401 "Invalid credentials".
\<close>

theorem login_outcome_tells_accounts_apart:
  "map_option tu_organization_id (get_tenant_user_by_email ''bob@other.io'' example_db) = Some 2
   \<and> map_option o_id (get_organization_by_slug ''acme'' example_db) = Some 1
   \<and> login example_verify_password (\<lambda>data. data) (\<lambda>data. data)
        \<lparr>lr_email = ''bob@other.io'', lr_password = ''Hunter22''\<rparr> (Some ''acme'') example_db
      = Inr \<lparr> ar_success = True, ar_message = ''Authentication successful'',
           ar_access_token = [(''sub'', JStr ''5''), (''context'', JStr ''tenant''),
               (''tenant'', JStr ''acme''), (''org_id'', JInt 1), (''email'', JStr ''bob@other.io'')],
           ar_refresh_token = [(''sub'', JStr ''5''), (''context'', JStr ''tenant''),
               (''tenant'', JStr ''acme''), (''org_id'', JInt 1)],
           ar_user_id = 5, ar_context = ''tenant'' \<rparr>
   \<and> login example_verify_password (\<lambda>data. data) (\<lambda>data. data)
        \<lparr>lr_email = ''dan@acme.io'', lr_password = ''wrong''\<rparr> (Some ''acme'') example_db
      = Inl (HTTPException 401 ''Invalid credentials'')
   \<and> login example_verify_password (\<lambda>data. data) (\<lambda>data. data)
        \<lparr>lr_email = ''erin@example.com'', lr_password = ''Plain123''\<rparr> None example_db_unhashed
      = Inl (HTTPException 400 ''Invalid salt'')
   \<and> login example_verify_password (\<lambda>data. data) (\<lambda>data. data)
        \<lparr>lr_email = ''nobody@example.com'', lr_password = ''Plain123''\<rparr> None example_db_unhashed
      = Inl (HTTPException 401 ''Invalid credentials'')"
  by (simp add: login_def authenticate_tenant_user_def authenticate_core_user_def
      get_tenant_session_def get_organization_by_slug_def get_tenant_user_by_email_def
      get_core_user_by_email_def example_db_unhashed_def example_rows
      example_verify_password_def py_str_examples)

text \<open>
  C2. The specification asks that a login into tenant \<open>acme\<close> with the email and the
  correct password of a user of tenant \<open>other\<close> fails. \<open>get_tenant_session\<close>
  hands back the session it was given and \<open>get_tenant_user_by_email\<close> filters on
  the email alone, so the user of \<open>other\<close> (organization 2) is found and a token
  pair bound to \<open>acme\<close> (organization 1) is issued. The token constructors are
  taken to return the claims they are given.
\<close>

theorem tenant_login_crosses_tenants:
  "map_option tu_organization_id (get_tenant_user_by_email ''bob@other.io'' example_db) = Some 2
   \<and> authenticate_tenant_user example_verify_password (\<lambda>data. data) (\<lambda>data. data)
      ''bob@other.io'' ''Hunter22'' ''acme'' example_db
   = Inr \<lparr> ar_success = True, ar_message = ''Authentication successful'',
           ar_access_token = [(''sub'', JStr ''5''), (''context'', JStr ''tenant''),
               (''tenant'', JStr ''acme''), (''org_id'', JInt 1), (''email'', JStr ''bob@other.io'')],
           ar_refresh_token = [(''sub'', JStr ''5''), (''context'', JStr ''tenant''),
               (''tenant'', JStr ''acme''), (''org_id'', JInt 1)],
           ar_user_id = 5, ar_context = ''tenant'' \<rparr>"
  by (simp add: authenticate_tenant_user_def get_tenant_session_def get_organization_by_slug_def
      get_tenant_user_by_email_def example_rows example_verify_password_def py_str_examples)

section \<open>Refresh\<close>

text \<open>
  What \<open>refresh_access_token\<close> does when the re-fetched user is absent, and when
  it is present but inactive.
\<close>

lemma int_or_raise_parsed: "py_int v = Some n \<Longrightarrow> int_or_raise v = Inr n"
  by (cases v) auto

lemma refresh_absent_core_user:
  assumes "decode_token tok = Inr payload"
      and "map_of payload ''context'' = Some (JStr ''core'')"
      and "map_of payload ''sub'' = Some sub" "\<not> falsy sub" "py_int sub = Some uid"
      and "get_core_user_by_id uid db_session = None"
  shows "refresh_access_token decode_token create_access_token tok db_session
           = Inl (AttributeError ''NoneType'' ''id'')"
  using assms by (simp add: refresh_access_token_def int_or_raise_parsed)

lemma refresh_absent_tenant_user:
  assumes "decode_token tok = Inr payload"
      and "map_of payload ''context'' = Some (JStr ''tenant'')"
      and "map_of payload ''sub'' = Some sub" "\<not> falsy sub" "py_int sub = Some uid"
      and "map_of payload ''tenant'' = Some (JStr slug)" "slug \<noteq> []"
      and "\<not> py_not (map_of payload ''org_id'')"
      and "get_organization_by_slug slug db_session = Some org"
      and "get_tenant_user_by_id uid db_session = None"
  shows "refresh_access_token decode_token create_access_token tok db_session
           = Inl (AttributeError ''NoneType'' ''id'')"
  using assms by (simp add: refresh_access_token_def get_tenant_session_def int_or_raise_parsed)

lemma refresh_inactive_core_user:
  assumes "decode_token tok = Inr payload"
      and "map_of payload ''context'' = Some (JStr ''core'')"
      and "map_of payload ''sub'' = Some sub" "\<not> falsy sub" "py_int sub = Some uid"
      and "get_core_user_by_id uid db_session = Some user" "\<not> cu_is_active user"
  shows "refresh_access_token decode_token create_access_token tok db_session
           = Inl (ValueError ''User not found or inactive'')"
  using assms by (simp add: refresh_access_token_def int_or_raise_parsed)

text \<open>
  C3. The specification asks that a refresh whose user is absent fails with
  \<open>ValueError("User not found or inactive")\<close>, as it does for an inactive user.
  For an absent user \<open>refresh_access_token\<close> reads \<open>user.id\<close> of \<open>None\<close> while it
  builds \<open>token_data\<close>, before the test on \<open>user\<close>, and raises \<open>AttributeError\<close>;
  only the inactive user reaches the test. Shown for the core branch (no core
  user 7, inactive core user 2) and the tenant branch (no tenant user 7).
\<close>

theorem refresh_absent_user_raises_attribute_error:
  "get_core_user_by_id 7 example_db = None
   \<and> refresh_access_token Inr (\<lambda>data. data)
        [(''sub'', JStr ''7''), (''context'', JStr ''core'')] example_db
       = Inl (AttributeError ''NoneType'' ''id'')
   \<and> refresh_access_token Inr (\<lambda>data. data)
        [(''sub'', JStr ''2''), (''context'', JStr ''core'')] example_db
       = Inl (ValueError ''User not found or inactive'')
   \<and> get_tenant_user_by_id 7 example_db = None
   \<and> refresh_access_token Inr (\<lambda>data. data)
        [(''sub'', JStr ''7''), (''context'', JStr ''tenant''),
         (''tenant'', JStr ''acme''), (''org_id'', JInt 1)] example_db
       = Inl (AttributeError ''NoneType'' ''id'')"
  by (simp add: refresh_access_token_def get_core_user_by_id_def get_tenant_user_by_id_def
      get_tenant_session_def get_organization_by_slug_def example_rows int_examples)

section \<open>Tenant header guard\<close>

text \<open>Whenever one of the two guards fires, the endpoint answers 500.\<close>

lemma tenant_header_guard_failure:
  assumes "tenant_context = None \<or> tenant_context = Some [] \<or> tenant_context \<noteq> Some token_tenant"
  shows "\<exists>detail. get_user_profile (user_id, token_tenant) tenant_context db_session
            = Inl (HTTPException 500 detail)"
    and "\<exists>detail. update_user_profile now update_data (user_id, token_tenant) tenant_context db_session
            = Inl (HTTPException 500 detail)"
  using assms by (auto simp: get_user_profile_def update_user_profile_def)

text \<open>
  C7. The specification asks for a 400 when the \<open>X-Tenant\<close> header is absent and a 403 when
  it differs from the token's tenant. Both endpoints raise these inside their
  \<open>try\<close>, whose handler \<open>except Exception\<close> turns them into a 500. The profile
  is not read and the database is not written in either case.
\<close>

theorem tenant_header_guard_becomes_500:
  "get_user_profile (5, ''other'') None example_db
     = Inl (HTTPException 500 ''Profile retrieval error: 400: X-TENANT header required'')
   \<and> get_user_profile (5, ''other'') (Some ''acme'') example_db
     = Inl (HTTPException 500 ''Profile retrieval error: 403: Token tenant does not match request tenant'')
   \<and> update_user_profile now update_data (5, ''other'') None example_db
     = Inl (HTTPException 500 ''Profile update error: 400: X-TENANT header required'')
   \<and> update_user_profile now update_data (5, ''other'') (Some ''acme'') example_db
     = Inl (HTTPException 500 ''Profile update error: 403: Token tenant does not match request tenant'')"
  by (simp add: get_user_profile_def update_user_profile_def py_str_examples)

end
